theory Spec2Isabelle
  imports Main
begin

section \<open>The ping script of usb-gadget: an echo test over a USB bulk endpoint pair\<close>

text \<open>
  \<^verbatim>\<open>example/ping/ping.py\<close> finds a USB device, claims interface 0, reads the max packet
  size of the inbound endpoint, sends five payloads to the outbound endpoint and compares
  each reply with what was sent. The script is embedded here function by function. The
  device and the USB library are the environment: a record of operations over a device
  state, each returning either an exception or a value. Every call and every printed line
  is appended to a trace, so that what the script did can be read off the final state.
\<close>

subsection \<open>Constants (lines 7 to 11)\<close>

definition VID :: int where "VID = 0x1d6b"
definition PID :: int where "PID = 0x0104"
definition INTERFACE :: int where "INTERFACE = 0"
definition EP_IN :: int where "EP_IN = 0x81"
definition EP_OUT :: int where "EP_OUT = 0x01"

subsection \<open>Exceptions, descriptors, the environment\<close>

text \<open>
  Python byte strings are lists of 8-bit characters, which is what \<^typ>\<open>string\<close> is.
\<close>

type_synonym bytes = string

text \<open>
  The exceptions the script can see. \<open>USBError\<close> stands for \<^verbatim>\<open>usb.core.USBError\<close> and
  its subclasses. \<open>RuntimeError sent expected\<close> is the one raised at line 42, with the two
  numbers of its message. \<open>SystemExit n\<close> is what \<^verbatim>\<open>sys.exit(n)\<close> raises. Anything else
  the library may raise is \<open>OtherException\<close> with its class name.
\<close>

datatype exn =
    NotImplementedError
  | USBError
  | IndexError
  | RuntimeError int int
  | SystemExit int
  | OtherException string

text \<open>The fields of an endpoint descriptor that \<^verbatim>\<open>endpoint_config\<close> reads.\<close>

record endpoint =
  bEndpointAddress :: int
  bmAttributes :: int
  wMaxPacketSize :: int
  bInterval :: int

text \<open>
  An active configuration, indexed by (interface, alternate setting) as in
  \<^verbatim>\<open>cfg[(INTERFACE, 0)]\<close>; the value is what \<^verbatim>\<open>intf.endpoints()\<close> returns.
\<close>

type_synonym configuration = "int \<times> int \<Rightarrow> endpoint list option"

text \<open>
  What the script prints and which library calls it makes, in order. The two messages
  without formatted values are kept as text; the formatted lines carry their values.
\<close>

datatype event =
    Print string
  | Print_Endpoint int
  | Print_Type int
  | Print_Max_Packet_Size int
  | Print_Interval int
  | Print_PING bytes
  | Print_PONG bytes
  | Call_find int int
  | Call_is_kernel_driver_active int
  | Call_detach_kernel_driver int
  | Call_claim_interface int
  | Call_release_interface int
  | Call_get_active_configuration
  | Call_write int bytes int
  | Call_read int int int

text \<open>
  The USB library and the device behind it, over a device state \<open>'s\<close>. \<open>usb_core_find\<close>
  returns whether a device was found (\<^verbatim>\<open>None\<close> is \<open>False\<close>); the device handle itself is
  the state. \<open>usb_util_endpoint_type\<close> is the pure library function of line 29.
\<close>

record 's usb =
  usb_core_find :: "int \<Rightarrow> int \<Rightarrow> 's \<Rightarrow> (exn + bool) \<times> 's"
  is_kernel_driver_active :: "int \<Rightarrow> 's \<Rightarrow> (exn + bool) \<times> 's"
  detach_kernel_driver :: "int \<Rightarrow> 's \<Rightarrow> (exn + unit) \<times> 's"
  usb_util_claim_interface :: "int \<Rightarrow> 's \<Rightarrow> (exn + unit) \<times> 's"
  usb_util_release_interface :: "int \<Rightarrow> 's \<Rightarrow> (exn + unit) \<times> 's"
  get_active_configuration :: "'s \<Rightarrow> (exn + configuration) \<times> 's"
  usb_util_endpoint_type :: "int \<Rightarrow> int"
  dev_write :: "int \<Rightarrow> bytes \<Rightarrow> int \<Rightarrow> 's \<Rightarrow> (exn + int) \<times> 's"
  dev_read :: "int \<Rightarrow> int \<Rightarrow> int \<Rightarrow> 's \<Rightarrow> (exn + bytes) \<times> 's"

text \<open>The state of a run: the device, and the trace of calls and printed lines so far.\<close>

record 's world =
  dev :: 's
  trace :: "event list"

subsection \<open>Sequencing with exceptions\<close>

text \<open>
  A statement is a function from the world to a result and a new world. \<open>then_do m f\<close>
  runs \<open>m\<close>; an exception of \<open>m\<close> leaves at once, otherwise \<open>f\<close> goes on with the value.
\<close>

definition then_do ::
  "('w \<Rightarrow> (exn + 'a) \<times> 'w) \<Rightarrow> ('a \<Rightarrow> 'w \<Rightarrow> (exn + 'b) \<times> 'w) \<Rightarrow> 'w \<Rightarrow> (exn + 'b) \<times> 'w" where
  "then_do m f w = (case m w of (Inl e, w') \<Rightarrow> (Inl e, w') | (Inr x, w') \<Rightarrow> f x w')"

definition raise :: "exn \<Rightarrow> 'w \<Rightarrow> (exn + 'a) \<times> 'w" where
  "raise e w = (Inl e, w)"

definition py_print :: "event \<Rightarrow> 's world \<Rightarrow> (exn + unit) \<times> 's world" where
  "py_print ev w = (Inr (), w\<lparr>trace := trace w @ [ev]\<rparr>)"

text \<open>
  A library call: the call is recorded whether it returns or raises, and the device
  moves to the state the operation leaves it in.
\<close>

definition call ::
  "event \<Rightarrow> ('s \<Rightarrow> (exn + 'a) \<times> 's) \<Rightarrow> 's world \<Rightarrow> (exn + 'a) \<times> 's world" where
  "call ev op w = (case op (dev w) of (r, s') \<Rightarrow> (r, \<lparr>dev = s', trace = trace w @ [ev]\<rparr>))"

subsection \<open>\<^verbatim>\<open>prepare_device\<close> (lines 13 to 20)\<close>

text \<open>The classes named by the \<^verbatim>\<open>except\<close> clause of line 17.\<close>

fun tolerated :: "exn \<Rightarrow> bool" where
  "tolerated NotImplementedError = True"
| "tolerated USBError = True"
| "tolerated _ = False"

text \<open>The body of the \<^verbatim>\<open>try\<close>, lines 15 and 16.\<close>

definition detach_attempt :: "'s usb \<Rightarrow> 's world \<Rightarrow> (exn + unit) \<times> 's world" where
  "detach_attempt u =
     then_do (call (Call_is_kernel_driver_active INTERFACE) (is_kernel_driver_active u INTERFACE))
       (\<lambda>active. if active
          then call (Call_detach_kernel_driver INTERFACE) (detach_kernel_driver u INTERFACE)
          else Pair (Inr ()))"

definition prepare_device :: "'s usb \<Rightarrow> 's world \<Rightarrow> (exn + unit) \<times> 's world" where
  "prepare_device u w =
     (case detach_attempt u w of
        (Inl e, w') \<Rightarrow>
          if tolerated e
          then call (Call_claim_interface INTERFACE) (usb_util_claim_interface u INTERFACE) w'
          else (Inl e, w')
      | (Inr _, w') \<Rightarrow>
          call (Call_claim_interface INTERFACE) (usb_util_claim_interface u INTERFACE) w')"

subsection \<open>\<^verbatim>\<open>endpoint_config\<close> (lines 22 to 36)\<close>

text \<open>The loop of lines 27 to 35, with \<open>pack_size\<close> as the loop variable.\<close>

fun endpoint_loop :: "'s usb \<Rightarrow> endpoint list \<Rightarrow> int \<Rightarrow> 's world \<Rightarrow> (exn + int) \<times> 's world" where
  "endpoint_loop u [] pack_size w = (Inr pack_size, w)"
| "endpoint_loop u (ep # eps) pack_size w =
     (let ep_addr = bEndpointAddress ep;
          ep_type = usb_util_endpoint_type u (bmAttributes ep)
      in then_do (py_print (Print_Endpoint ep_addr)) (\<lambda>_.
         then_do (py_print (Print_Type ep_type)) (\<lambda>_.
         then_do (py_print (Print_Max_Packet_Size (wMaxPacketSize ep))) (\<lambda>_.
         then_do (py_print (Print_Interval (bInterval ep))) (\<lambda>_.
           endpoint_loop u eps (if ep_addr = EP_IN then wMaxPacketSize ep else pack_size))))) w)"

definition endpoint_config :: "'s usb \<Rightarrow> 's world \<Rightarrow> (exn + int) \<times> 's world" where
  "endpoint_config u =
     then_do (call Call_get_active_configuration (get_active_configuration u)) (\<lambda>cfg.
       case cfg (INTERFACE, 0) of
         None \<Rightarrow> raise IndexError
       | Some eps \<Rightarrow> endpoint_loop u eps 0)"

subsection \<open>\<^verbatim>\<open>send_and_receive\<close> (lines 38 to 45)\<close>

definition send_and_receive :: "'s usb \<Rightarrow> bytes \<Rightarrow> int \<Rightarrow> 's world \<Rightarrow> (exn + bytes) \<times> 's world" where
  "send_and_receive u payload pkt_size =
     then_do (py_print (Print_PING payload)) (\<lambda>_.
     then_do (call (Call_write EP_OUT payload INTERFACE) (dev_write u EP_OUT payload INTERFACE))
       (\<lambda>bytes_sent.
          if bytes_sent \<noteq> int (length payload)
          then raise (RuntimeError bytes_sent (int (length payload)))
          else then_do (call (Call_read EP_IN pkt_size INTERFACE) (dev_read u EP_IN pkt_size INTERFACE))
            (\<lambda>received.
               then_do (py_print (Print_PONG received)) (\<lambda>_. Pair (Inr received)))))"

subsection \<open>\<^verbatim>\<open>main\<close> (lines 47 to 68) and the script (lines 70 to 72)\<close>

text \<open>
  The test vectors of lines 55 to 61. \<^verbatim>\<open>b"A" * n\<close> is empty for \<open>n \<le> 0\<close>, as
  \<^const>\<open>replicate\<close> on \<^term>\<open>nat n\<close> is.
\<close>

definition tests :: "int \<Rightarrow> (string \<times> bytes) list" where
  "tests pkt_size =
     [(''Text'', ''Hello USB!''),
      (''Digits'', ''1234567890''),
      (''Binary'', [CHR 0x00, CHR 0x01, CHR 0x02, CHR 0x03, CHR 0x04]),
      (''String with NULL'', ''ABC'' @ [CHR 0x00] @ ''DEF''),
      (''pkt_size-1 bytes'', replicate (nat (pkt_size - 1)) CHR ''A'')]"

text \<open>The loop of lines 63 to 66.\<close>

fun test_loop ::
  "'s usb \<Rightarrow> (string \<times> bytes) list \<Rightarrow> int \<Rightarrow> 's world \<Rightarrow> (exn + unit) \<times> 's world" where
  "test_loop u [] pkt_size w = (Inr (), w)"
| "test_loop u ((name, data) # rest) pkt_size w =
     then_do (send_and_receive u data pkt_size) (\<lambda>response.
       then_do (if response \<noteq> data
                then py_print (Print (''ERROR: Mismatch in '' @ name @ '' test.''))
                else Pair (Inr ()))
         (\<lambda>_. test_loop u rest pkt_size)) w"

definition main :: "'s usb \<Rightarrow> 's world \<Rightarrow> (exn + unit) \<times> 's world" where
  "main u =
     then_do (call (Call_find VID PID) (usb_core_find u VID PID)) (\<lambda>found.
       if \<not> found
       then then_do (py_print (Print ''ERROR: Device not found.'')) (\<lambda>_. raise (SystemExit 1))
       else then_do (prepare_device u) (\<lambda>_.
            then_do (endpoint_config u) (\<lambda>pkt_size.
            then_do (test_loop u (tests pkt_size) pkt_size) (\<lambda>_.
              call (Call_release_interface INTERFACE) (usb_util_release_interface u INTERFACE)))))"

text \<open>
  The exit status of the process. After \<^verbatim>\<open>main()\<close> returns, line 72 calls \<^verbatim>\<open>exit(0)\<close>.
  \<^verbatim>\<open>SystemExit n\<close> ends the process with status \<open>n\<close>; any other exception that leaves
  \<^verbatim>\<open>main\<close> is uncaught, and the interpreter ends with status 1.
\<close>

definition script :: "'s usb \<Rightarrow> 's world \<Rightarrow> int \<times> 's world" where
  "script u w =
     (case main u w of
        (Inr _, w') \<Rightarrow> (0, w')
      | (Inl (SystemExit n), w') \<Rightarrow> (n, w')
      | (Inl _, w') \<Rightarrow> (1, w'))"

text \<open>
  Lines 48 to 54 of \<^verbatim>\<open>main\<close> on their own: everything that happens before the loop,
  returning the packet size the loop is entered with.
\<close>

definition main_setup :: "'s usb \<Rightarrow> 's world \<Rightarrow> (exn + int) \<times> 's world" where
  "main_setup u =
     then_do (call (Call_find VID PID) (usb_core_find u VID PID)) (\<lambda>found.
       if \<not> found
       then then_do (py_print (Print ''ERROR: Device not found.'')) (\<lambda>_. raise (SystemExit 1))
       else then_do (prepare_device u) (\<lambda>_. endpoint_config u))"

subsection \<open>Properties of the environment\<close>


subsection \<open>A simulated device for concrete runs\<close>

text \<open>
  The behaviour of a simulated device is a record of outcomes. Its state is the number
  of exchanges finished and the last payload written; \<open>reported_count k data\<close> is what
  write number \<open>k\<close> returns for \<open>data\<close>, and \<open>reply k data\<close> what read number \<open>k\<close>
  does when \<open>data\<close> was written last.
\<close>

record sim =
  present :: bool
  driver_active :: "exn + bool"
  detach_result :: "exn + unit"
  claim_result :: "exn + unit"
  release_result :: "exn + unit"
  descriptors :: "endpoint list"
  reported_count :: "nat \<Rightarrow> bytes \<Rightarrow> int"
  reply :: "nat \<Rightarrow> bytes \<Rightarrow> exn + bytes"

definition sim_usb :: "sim \<Rightarrow> (nat \<times> bytes) usb" where
  "sim_usb d =
     \<lparr>usb_core_find = (\<lambda>vid pid s. (Inr (present d \<and> vid = 0x1d6b \<and> pid = 0x0104), s)),
      is_kernel_driver_active = (\<lambda>i s. (driver_active d, s)),
      detach_kernel_driver = (\<lambda>i s. (detach_result d, s)),
      usb_util_claim_interface = (\<lambda>i s. (claim_result d, s)),
      usb_util_release_interface = (\<lambda>i s. (release_result d, s)),
      get_active_configuration =
        (\<lambda>s. (Inr (\<lambda>k. if k = (0, 0) then Some (descriptors d) else None), s)),
      usb_util_endpoint_type = (\<lambda>a. a mod 4),
      dev_write = (\<lambda>ep data t (k, l). (Inr (reported_count d k data), (k, data))),
      dev_read = (\<lambda>ep size t (k, l). (reply d k l, (Suc k, l)))\<rparr>"

text \<open>
  The pong gadget as it should be: found, no kernel driver bound, one bulk endpoint in
  each direction with 64-byte packets, and every payload echoed unchanged.
\<close>

definition pong :: sim where
  "pong =
     \<lparr>present = True,
      driver_active = Inr False,
      detach_result = Inr (),
      claim_result = Inr (),
      release_result = Inr (),
      descriptors =
        [\<lparr>bEndpointAddress = 0x81, bmAttributes = 2, wMaxPacketSize = 64, bInterval = 0\<rparr>,
         \<lparr>bEndpointAddress = 0x01, bmAttributes = 2, wMaxPacketSize = 64, bInterval = 0\<rparr>],
      reported_count = (\<lambda>k data. int (length data)),
      reply = (\<lambda>k data. Inr data)\<rparr>"

definition start :: "(nat \<times> bytes) world" where
  "start = \<lparr>dev = (0, []), trace = []\<rparr>"

text \<open>The pong gadget with a fault: read number \<open>k\<close> (counted from 0) stalls.\<close>

definition stalling :: "nat \<Rightarrow> sim" where
  "stalling k = pong\<lparr>reply := (\<lambda>j data. if j = k then Inl USBError else Inr data)\<rparr>"

text \<open>
  The pong gadget without its inbound endpoint: the active interface has the outbound
  endpoint only, and a read on the missing address 0x81 is refused by the library.
\<close>

definition deaf :: sim where
  "deaf = pong\<lparr>descriptors :=
             [\<lparr>bEndpointAddress = 0x01, bmAttributes = 2, wMaxPacketSize = 64, bInterval = 0\<rparr>],
           reply := (\<lambda>k data. Inl (OtherException ''ValueError''))\<rparr>"

section \<open>Verification\<close>

subsection \<open>Unfolding sets and basic facts\<close>

lemmas sim_defs = sim_usb_def pong_def start_def
  VID_def PID_def INTERFACE_def EP_IN_def EP_OUT_def

lemmas step_defs = then_do_def call_def py_print_def raise_def send_and_receive_def

lemmas run_defs = main_def main_setup_def script_def prepare_device_def detach_attempt_def
  endpoint_config_def tests_def

lemma call_trace: "trace (snd (call ev op w)) = trace w @ [ev]"
  by (simp add: call_def split: prod.splits)

subsection \<open>One exchange\<close>

text \<open>
  The four ways \<^const>\<open>send_and_receive\<close> can go, each with the events it leaves in
  the trace: the write raises, the write reports a wrong count, the read raises, the read
  returns.
\<close>

lemma send_and_receive_write_raises:
  assumes "dev_write u EP_OUT payload INTERFACE (dev w) = (Inl e, s1)"
  shows "send_and_receive u payload pkt_size w =
           (Inl e, \<lparr>dev = s1, trace = trace w @ [Print_PING payload, Call_write EP_OUT payload INTERFACE]\<rparr>)"
  using assms by (simp add: send_and_receive_def then_do_def py_print_def call_def)

lemma send_and_receive_short_write:
  assumes "dev_write u EP_OUT payload INTERFACE (dev w) = (Inr n, s1)"
      and "n \<noteq> int (length payload)"
  shows "send_and_receive u payload pkt_size w =
           (Inl (RuntimeError n (int (length payload))),
            \<lparr>dev = s1, trace = trace w @ [Print_PING payload, Call_write EP_OUT payload INTERFACE]\<rparr>)"
  using assms by (simp add: send_and_receive_def then_do_def py_print_def call_def raise_def)

lemma send_and_receive_read_raises:
  assumes "dev_write u EP_OUT payload INTERFACE (dev w) = (Inr (int (length payload)), s1)"
      and "dev_read u EP_IN pkt_size INTERFACE s1 = (Inl e, s2)"
  shows "send_and_receive u payload pkt_size w =
           (Inl e, \<lparr>dev = s2, trace = trace w @ [Print_PING payload, Call_write EP_OUT payload INTERFACE,
                                  Call_read EP_IN pkt_size INTERFACE]\<rparr>)"
  using assms by (simp add: send_and_receive_def then_do_def py_print_def call_def)

lemma send_and_receive_reply:
  assumes "dev_write u EP_OUT payload INTERFACE (dev w) = (Inr (int (length payload)), s1)"
      and "dev_read u EP_IN pkt_size INTERFACE s1 = (Inr received, s2)"
  shows "send_and_receive u payload pkt_size w =
           (Inr received, \<lparr>dev = s2, trace = trace w @ [Print_PING payload, Call_write EP_OUT payload INTERFACE,
                                  Call_read EP_IN pkt_size INTERFACE, Print_PONG received]\<rparr>)"
  using assms by (simp add: send_and_receive_def then_do_def py_print_def call_def)

subsection \<open>The test loop\<close>

text \<open>The loop over a concatenation runs the first part, then the second from where it ended.\<close>

lemma test_loop_append:
  "test_loop u (xs @ ys) pkt_size w =
     (case test_loop u xs pkt_size w of
        (Inl e, w') \<Rightarrow> (Inl e, w')
      | (Inr _, w') \<Rightarrow> test_loop u ys pkt_size w')"
proof (induction xs arbitrary: w)
  case Nil
  show ?case by simp
next
  case (Cons x xs)
  obtain name data where x: "x = (name, data)" by (cases x)
  show ?case
    by (simp add: x then_do_def Cons.IH py_print_def split: prod.splits sum.splits)
qed

lemma test_loop_echo_step:
  assumes "dev_write u EP_OUT data INTERFACE (dev w) = (Inr (int (length data)), s1)"
      and "dev_read u EP_IN pkt_size INTERFACE s1 = (Inr data, s2)"
  shows "test_loop u ((name, data) # rest) pkt_size w =
           test_loop u rest pkt_size
             \<lparr>dev = s2, trace = trace w @ [Print_PING data, Call_write EP_OUT data INTERFACE,
                                            Call_read EP_IN pkt_size INTERFACE, Print_PONG data]\<rparr>"
  by (simp add: then_do_def send_and_receive_reply [OF assms])



text \<open>
  Claim C2. If the vectors before it went through and the write of a vector reports a
  byte count that is not the length of its payload, then \<^const>\<open>send_and_receive\<close>
  raises the error of line 42 (a \<^verbatim>\<open>RuntimeError\<close> in the script), the loop raises
  it too, and the trace ends with the write: no read was attempted for that vector.
\<close>

theorem short_write_raises_before_read:
  assumes "test_loop u before pkt_size w = (Inr (), w1)"
      and "dev_write u EP_OUT data INTERFACE (dev w1) = (Inr n, s2)"
      and "n \<noteq> int (length data)"
  shows "send_and_receive u data pkt_size w1 =
           (Inl (RuntimeError n (int (length data))),
            \<lparr>dev = s2, trace = trace w1 @ [Print_PING data, Call_write EP_OUT data INTERFACE]\<rparr>) \<and>
         test_loop u (before @ (name, data) # after) pkt_size w =
           (Inl (RuntimeError n (int (length data))),
            \<lparr>dev = s2, trace = trace w1 @ [Print_PING data, Call_write EP_OUT data INTERFACE]\<rparr>)"
  using assms(1) send_and_receive_short_write [OF assms(2,3), of pkt_size]
  by (simp add: test_loop_append then_do_def)

theorem short_write_raises_before_read_witness:
  "test_loop (sim_usb (pong\<lparr>reported_count := (\<lambda>k data. if k = 2 then 3 else int (length data))\<rparr>))
     [(''Text'', ''Hello USB!''), (''Digits'', ''1234567890'')] 64 start =
     (Inr (), \<lparr>dev = (2, ''1234567890''), trace =
        [Print_PING ''Hello USB!'', Call_write 1 ''Hello USB!'' 0, Call_read 129 64 0,
         Print_PONG ''Hello USB!'',
         Print_PING ''1234567890'', Call_write 1 ''1234567890'' 0, Call_read 129 64 0,
         Print_PONG ''1234567890'']\<rparr>) \<and>
   test_loop (sim_usb (pong\<lparr>reported_count := (\<lambda>k data. if k = 2 then 3 else int (length data))\<rparr>))
     (tests 64) 64 start =
     (Inl (RuntimeError 3 5), \<lparr>dev = (2, [CHR 0x00, CHR 0x01, CHR 0x02, CHR 0x03, CHR 0x04]), trace =
        [Print_PING ''Hello USB!'', Call_write 1 ''Hello USB!'' 0, Call_read 129 64 0,
         Print_PONG ''Hello USB!'',
         Print_PING ''1234567890'', Call_write 1 ''1234567890'' 0, Call_read 129 64 0,
         Print_PONG ''1234567890'',
         Print_PING [CHR 0x00, CHR 0x01, CHR 0x02, CHR 0x03, CHR 0x04],
         Call_write 1 [CHR 0x00, CHR 0x01, CHR 0x02, CHR 0x03, CHR 0x04] 0]\<rparr>)"
proof -
  let ?u = "sim_usb (pong\<lparr>reported_count := (\<lambda>k data. if k = 2 then 3 else int (length data))\<rparr>)"
  let ?data = "[CHR 0x00, CHR 0x01, CHR 0x02, CHR 0x03, CHR 0x04]"
  let ?w1 = "\<lparr>dev = (2::nat, ''1234567890''), trace =
        [Print_PING ''Hello USB!'', Call_write 1 ''Hello USB!'' 0, Call_read 129 64 0,
         Print_PONG ''Hello USB!'',
         Print_PING ''1234567890'', Call_write 1 ''1234567890'' 0, Call_read 129 64 0,
         Print_PONG ''1234567890'']\<rparr>"
  have h1: "test_loop ?u [(''Text'', ''Hello USB!''), (''Digits'', ''1234567890'')] 64 start = (Inr (), ?w1)"
    by (simp add: step_defs sim_defs)
  have h2: "dev_write ?u EP_OUT ?data INTERFACE (dev ?w1) = (Inr 3, (2, ?data))"
    by (simp add: sim_defs)
  have h3: "(3::int) \<noteq> int (length ?data)"
    by simp
  show ?thesis
    using h1 short_write_raises_before_read [OF h1 h2 h3, of "''Binary''"
        "[(''String with NULL'', ''ABC'' @ [CHR 0x00] @ ''DEF''),
          (''pkt_size-1 bytes'', replicate (nat (64 - 1)) CHR ''A'')]"]
    by (simp add: tests_def sim_defs)
qed

text \<open>
  Claim C3. If the vectors before it went through, the write of vector \<open>k\<close> succeeded
  and its read raises a transport error, then the loop ends with that very error. The
  trace ends with the one read that failed: it is not tried again, nothing is printed
  for vector \<open>k\<close>, and the vectors after it are never sent.
\<close>

theorem read_fault_aborts_run:
  assumes "test_loop u before pkt_size w = (Inr (), w1)"
      and "dev_write u EP_OUT data INTERFACE (dev w1) = (Inr (int (length data)), s2)"
      and "dev_read u EP_IN pkt_size INTERFACE s2 = (Inl e, s3)"
  shows "test_loop u (before @ (name, data) # after) pkt_size w =
           (Inl e, \<lparr>dev = s3, trace = trace w1 @ [Print_PING data, Call_write EP_OUT data INTERFACE,
                                                  Call_read EP_IN pkt_size INTERFACE]\<rparr>)"
  using assms(1) send_and_receive_read_raises [OF assms(2,3)]
  by (simp add: test_loop_append then_do_def)

theorem read_fault_aborts_run_witness:
  "test_loop (sim_usb (pong\<lparr>reply := (\<lambda>k data. if k = 2 then Inl USBError else Inr data)\<rparr>))
     [(''Text'', ''Hello USB!''), (''Digits'', ''1234567890'')] 64 start =
     (Inr (), \<lparr>dev = (2, ''1234567890''), trace =
        [Print_PING ''Hello USB!'', Call_write 1 ''Hello USB!'' 0, Call_read 129 64 0,
         Print_PONG ''Hello USB!'',
         Print_PING ''1234567890'', Call_write 1 ''1234567890'' 0, Call_read 129 64 0,
         Print_PONG ''1234567890'']\<rparr>) \<and>
   test_loop (sim_usb (pong\<lparr>reply := (\<lambda>k data. if k = 2 then Inl USBError else Inr data)\<rparr>))
     (tests 64) 64 start =
     (Inl USBError, \<lparr>dev = (3, [CHR 0x00, CHR 0x01, CHR 0x02, CHR 0x03, CHR 0x04]), trace =
        [Print_PING ''Hello USB!'', Call_write 1 ''Hello USB!'' 0, Call_read 129 64 0,
         Print_PONG ''Hello USB!'',
         Print_PING ''1234567890'', Call_write 1 ''1234567890'' 0, Call_read 129 64 0,
         Print_PONG ''1234567890'',
         Print_PING [CHR 0x00, CHR 0x01, CHR 0x02, CHR 0x03, CHR 0x04],
         Call_write 1 [CHR 0x00, CHR 0x01, CHR 0x02, CHR 0x03, CHR 0x04] 0,
         Call_read 129 64 0]\<rparr>)"
proof -
  let ?u = "sim_usb (pong\<lparr>reply := (\<lambda>k data. if k = 2 then Inl USBError else Inr data)\<rparr>)"
  let ?data = "[CHR 0x00, CHR 0x01, CHR 0x02, CHR 0x03, CHR 0x04]"
  let ?w1 = "\<lparr>dev = (2::nat, ''1234567890''), trace =
        [Print_PING ''Hello USB!'', Call_write 1 ''Hello USB!'' 0, Call_read 129 64 0,
         Print_PONG ''Hello USB!'',
         Print_PING ''1234567890'', Call_write 1 ''1234567890'' 0, Call_read 129 64 0,
         Print_PONG ''1234567890'']\<rparr>"
  have h1: "test_loop ?u [(''Text'', ''Hello USB!''), (''Digits'', ''1234567890'')] 64 start = (Inr (), ?w1)"
    by (simp add: step_defs sim_defs)
  have h2: "dev_write ?u EP_OUT ?data INTERFACE (dev ?w1) = (Inr (int (length ?data)), (2, ?data))"
    by (simp add: sim_defs)
  have h3: "dev_read ?u EP_IN 64 INTERFACE (2, ?data) = (Inl USBError, (3, ?data))"
    by (simp add: sim_defs)
  show ?thesis
    using h1 read_fault_aborts_run [OF h1 h2 h3, of "''Binary''"
        "[(''String with NULL'', ''ABC'' @ [CHR 0x00] @ ''DEF''),
          (''pkt_size-1 bytes'', replicate (nat (64 - 1)) CHR ''A'')]"]
    by (simp add: tests_def sim_defs)
qed

text \<open>
  Claim C5. If the reply to a vector differs from its payload in any way, the PONG
  line shows exactly the bytes the transport returned, the mismatch line naming the
  vector is printed, no error is raised, and the loop goes on with the remaining vectors.
\<close>

theorem mismatch_reported_loop_continues:
  assumes "test_loop u before pkt_size w = (Inr (), w1)"
      and "dev_write u EP_OUT data INTERFACE (dev w1) = (Inr (int (length data)), s2)"
      and "dev_read u EP_IN pkt_size INTERFACE s2 = (Inr received, s3)"
      and "received \<noteq> data"
  shows "test_loop u (before @ (name, data) # after) pkt_size w =
           test_loop u after pkt_size
             \<lparr>dev = s3, trace = trace w1 @ [Print_PING data, Call_write EP_OUT data INTERFACE,
                 Call_read EP_IN pkt_size INTERFACE, Print_PONG received,
                 Print (''ERROR: Mismatch in '' @ name @ '' test.'')]\<rparr>"
  using assms(1,4) send_and_receive_reply [OF assms(2,3)]
  by (simp add: test_loop_append then_do_def py_print_def)

theorem mismatch_reported_loop_continues_witness:
  "test_loop (sim_usb (pong\<lparr>reply := (\<lambda>k data. Inr (take 5 data))\<rparr>))
     [(''Text'', ''Hello USB!''), (''Digits'', ''1234567890''),
      (''Binary'', [CHR 0x00, CHR 0x01, CHR 0x02, CHR 0x03, CHR 0x04])] 64 start =
     (Inr (), \<lparr>dev = (3, [CHR 0x00, CHR 0x01, CHR 0x02, CHR 0x03, CHR 0x04]), trace =
        [Print_PING ''Hello USB!'', Call_write 1 ''Hello USB!'' 0, Call_read 129 64 0,
         Print_PONG ''Hello'', Print ''ERROR: Mismatch in Text test.'',
         Print_PING ''1234567890'', Call_write 1 ''1234567890'' 0, Call_read 129 64 0,
         Print_PONG ''12345'', Print ''ERROR: Mismatch in Digits test.'',
         Print_PING [CHR 0x00, CHR 0x01, CHR 0x02, CHR 0x03, CHR 0x04],
         Call_write 1 [CHR 0x00, CHR 0x01, CHR 0x02, CHR 0x03, CHR 0x04] 0,
         Call_read 129 64 0,
         Print_PONG [CHR 0x00, CHR 0x01, CHR 0x02, CHR 0x03, CHR 0x04]]\<rparr>)"
proof -
  let ?u = "sim_usb (pong\<lparr>reply := (\<lambda>k data. Inr (take 5 data))\<rparr>)"
  let ?w1 = "\<lparr>dev = (1::nat, ''Hello USB!''), trace =
        [Print_PING ''Hello USB!'', Call_write 1 ''Hello USB!'' 0, Call_read 129 64 0,
         Print_PONG ''Hello'', Print ''ERROR: Mismatch in Text test.'']\<rparr>"
  have h1: "test_loop ?u [(''Text'', ''Hello USB!'')] 64 start = (Inr (), ?w1)"
    by (simp add: step_defs sim_defs)
  have h2: "dev_write ?u EP_OUT ''1234567890'' INTERFACE (dev ?w1) =
              (Inr (int (length ''1234567890'')), (1, ''1234567890''))"
    by (simp add: sim_defs)
  have h3: "dev_read ?u EP_IN 64 INTERFACE (1, ''1234567890'') = (Inr ''12345'', (2, ''1234567890''))"
    by (simp add: sim_defs)
  have h4: "''12345'' \<noteq> ''1234567890''"
    by simp
  show ?thesis
    using mismatch_reported_loop_continues [OF h1 h2 h3 h4, of "''Digits''"
        "[(''Binary'', [CHR 0x00, CHR 0x01, CHR 0x02, CHR 0x03, CHR 0x04])]"]
    by (simp add: step_defs sim_defs)
qed

subsection \<open>Preparing the device\<close>

text \<open>What the body of the \<^verbatim>\<open>try\<close> does, by what the two library calls do.\<close>

lemma detach_attempt_active_raises:
  assumes "is_kernel_driver_active u INTERFACE (dev w) = (Inl e, s1)"
  shows "detach_attempt u w =
           (Inl e, \<lparr>dev = s1, trace = trace w @ [Call_is_kernel_driver_active INTERFACE]\<rparr>)"
  using assms by (simp add: detach_attempt_def then_do_def call_def)

lemma detach_attempt_active:
  assumes "is_kernel_driver_active u INTERFACE (dev w) = (Inr True, s1)"
      and "detach_kernel_driver u INTERFACE s1 = (r, s2)"
  shows "detach_attempt u w =
           (r, \<lparr>dev = s2, trace = trace w @ [Call_is_kernel_driver_active INTERFACE,
                                              Call_detach_kernel_driver INTERFACE]\<rparr>)"
  using assms by (simp add: detach_attempt_def then_do_def call_def)

lemma tolerated_iff: "tolerated e \<longleftrightarrow> e = NotImplementedError \<or> e = USBError"
  by (cases e) simp_all

lemma detach_attempt_trace:
  "\<exists>s. snd (detach_attempt u w) = \<lparr>dev = s, trace = trace w @ [Call_is_kernel_driver_active INTERFACE]\<rparr> \<or>
       snd (detach_attempt u w) = \<lparr>dev = s, trace = trace w @ [Call_is_kernel_driver_active INTERFACE,
                                              Call_detach_kernel_driver INTERFACE]\<rparr>"
  by (auto simp: detach_attempt_def then_do_def call_def split: prod.splits sum.splits)

text \<open>
  Claim C8. An exception of the detach step, whether raised by the query of line 15 or
  by the detach of line 16, is swallowed exactly when it is \<^verbatim>\<open>NotImplementedError\<close>
  or \<^verbatim>\<open>USBError\<close>, and the claim of the interface follows; any other exception
  leaves \<^const>\<open>prepare_device\<close> before the interface is claimed. Later steps are not
  covered: an exception of the claim at line 20 leaves \<^const>\<open>prepare_device\<close>, even a
  \<^verbatim>\<open>USBError\<close>, and so does an exception of \<^const>\<open>endpoint_config\<close> leave
  \<^const>\<open>main\<close>.
\<close>

theorem detach_step_tolerates_two_faults:
  "(is_kernel_driver_active u INTERFACE (dev w) = (Inl e, s1) \<longrightarrow>
      prepare_device u w =
        (if e = NotImplementedError \<or> e = USBError
         then call (Call_claim_interface INTERFACE) (usb_util_claim_interface u INTERFACE)
                \<lparr>dev = s1, trace = trace w @ [Call_is_kernel_driver_active INTERFACE]\<rparr>
         else (Inl e, \<lparr>dev = s1, trace = trace w @ [Call_is_kernel_driver_active INTERFACE]\<rparr>))) \<and>
   (is_kernel_driver_active u INTERFACE (dev w) = (Inr True, s1) \<and>
    detach_kernel_driver u INTERFACE s1 = (Inl e, s2) \<longrightarrow>
      prepare_device u w =
        (if e = NotImplementedError \<or> e = USBError
         then call (Call_claim_interface INTERFACE) (usb_util_claim_interface u INTERFACE)
                \<lparr>dev = s2, trace = trace w @ [Call_is_kernel_driver_active INTERFACE,
                                               Call_detach_kernel_driver INTERFACE]\<rparr>
         else (Inl e, \<lparr>dev = s2, trace = trace w @ [Call_is_kernel_driver_active INTERFACE,
                                                    Call_detach_kernel_driver INTERFACE]\<rparr>))) \<and>
   (detach_attempt u w = (r, w1) \<and> (r = Inr () \<or> r = Inl NotImplementedError \<or> r = Inl USBError) \<and>
    usb_util_claim_interface u INTERFACE (dev w1) = (Inl e, s3) \<longrightarrow>
      prepare_device u w = (Inl e, \<lparr>dev = s3, trace = trace w1 @ [Call_claim_interface INTERFACE]\<rparr>)) \<and>
   (usb_core_find u VID PID (dev w) = (Inr True, s0) \<and>
    prepare_device u \<lparr>dev = s0, trace = trace w @ [Call_find VID PID]\<rparr> = (Inr (), wp) \<and>
    endpoint_config u wp = (Inl e, w0) \<longrightarrow>
      main u w = (Inl e, w0))"
proof (intro conjI impI)
  assume a: "is_kernel_driver_active u INTERFACE (dev w) = (Inl e, s1)"
  show "prepare_device u w =
        (if e = NotImplementedError \<or> e = USBError
         then call (Call_claim_interface INTERFACE) (usb_util_claim_interface u INTERFACE)
                \<lparr>dev = s1, trace = trace w @ [Call_is_kernel_driver_active INTERFACE]\<rparr>
         else (Inl e, \<lparr>dev = s1, trace = trace w @ [Call_is_kernel_driver_active INTERFACE]\<rparr>))"
    by (simp add: prepare_device_def detach_attempt_active_raises [OF a] tolerated_iff)
next
  assume a: "is_kernel_driver_active u INTERFACE (dev w) = (Inr True, s1) \<and>
    detach_kernel_driver u INTERFACE s1 = (Inl e, s2)"
  show "prepare_device u w =
        (if e = NotImplementedError \<or> e = USBError
         then call (Call_claim_interface INTERFACE) (usb_util_claim_interface u INTERFACE)
                \<lparr>dev = s2, trace = trace w @ [Call_is_kernel_driver_active INTERFACE,
                                               Call_detach_kernel_driver INTERFACE]\<rparr>
         else (Inl e, \<lparr>dev = s2, trace = trace w @ [Call_is_kernel_driver_active INTERFACE,
                                                    Call_detach_kernel_driver INTERFACE]\<rparr>))"
    using a by (simp add: prepare_device_def detach_attempt_active [of u w s1] tolerated_iff)
next
  assume a: "detach_attempt u w = (r, w1) \<and> (r = Inr () \<or> r = Inl NotImplementedError \<or> r = Inl USBError) \<and>
    usb_util_claim_interface u INTERFACE (dev w1) = (Inl e, s3)"
  then show "prepare_device u w = (Inl e, \<lparr>dev = s3, trace = trace w1 @ [Call_claim_interface INTERFACE]\<rparr>)"
    by (auto simp: prepare_device_def call_def)
next
  assume a: "usb_core_find u VID PID (dev w) = (Inr True, s0) \<and>
    prepare_device u \<lparr>dev = s0, trace = trace w @ [Call_find VID PID]\<rparr> = (Inr (), wp) \<and>
    endpoint_config u wp = (Inl e, w0)"
  then show "main u w = (Inl e, w0)"
    by (simp add: main_def then_do_def call_def)
qed

theorem detach_step_tolerates_two_faults_witness:
  "prepare_device (sim_usb (pong\<lparr>driver_active := Inl NotImplementedError\<rparr>)) start =
     (Inr (), \<lparr>dev = (0, []), trace = [Call_is_kernel_driver_active 0, Call_claim_interface 0]\<rparr>) \<and>
   prepare_device (sim_usb (pong\<lparr>driver_active := Inl (OtherException ''ValueError'')\<rparr>)) start =
     (Inl (OtherException ''ValueError''), \<lparr>dev = (0, []), trace = [Call_is_kernel_driver_active 0]\<rparr>) \<and>
   prepare_device (sim_usb (pong\<lparr>driver_active := Inr True, detach_result := Inl USBError\<rparr>)) start =
     (Inr (), \<lparr>dev = (0, []), trace = [Call_is_kernel_driver_active 0, Call_detach_kernel_driver 0,
                                         Call_claim_interface 0]\<rparr>) \<and>
   prepare_device (sim_usb (pong\<lparr>claim_result := Inl USBError\<rparr>)) start =
     (Inl USBError, \<lparr>dev = (0, []), trace = [Call_is_kernel_driver_active 0, Call_claim_interface 0]\<rparr>) \<and>
   main ((sim_usb pong)\<lparr>get_active_configuration := (\<lambda>s. (Inl USBError, s))\<rparr>) start =
     (Inl USBError, \<lparr>dev = (0, []), trace = [Call_find 0x1d6b 0x0104, Call_is_kernel_driver_active 0,
                                              Call_claim_interface 0, Call_get_active_configuration]\<rparr>)"
proof -
  let ?u1 = "sim_usb (pong\<lparr>driver_active := Inl NotImplementedError\<rparr>)"
  let ?u2 = "sim_usb (pong\<lparr>driver_active := Inl (OtherException ''ValueError'')\<rparr>)"
  let ?u3 = "sim_usb (pong\<lparr>driver_active := Inr True, detach_result := Inl USBError\<rparr>)"
  let ?u4 = "sim_usb (pong\<lparr>claim_result := Inl USBError\<rparr>)"
  let ?u5 = "(sim_usb pong)\<lparr>get_active_configuration := (\<lambda>s. (Inl USBError, s))\<rparr>"
  let ?w1 = "\<lparr>dev = (0::nat, []::bytes), trace = [Call_is_kernel_driver_active INTERFACE]\<rparr>"
  let ?wp = "\<lparr>dev = (0::nat, []::bytes), trace = trace start @ [Call_find VID PID,
               Call_is_kernel_driver_active INTERFACE, Call_claim_interface INTERFACE]\<rparr>"
  let ?w0 = "\<lparr>dev = (0::nat, []::bytes), trace = trace start @ [Call_find VID PID,
               Call_is_kernel_driver_active INTERFACE, Call_claim_interface INTERFACE,
               Call_get_active_configuration]\<rparr>"
  have a1: "is_kernel_driver_active ?u1 INTERFACE (dev start) = (Inl NotImplementedError, (0, []))"
    by (simp add: sim_defs)
  have a2: "is_kernel_driver_active ?u2 INTERFACE (dev start) = (Inl (OtherException ''ValueError''), (0, []))"
    by (simp add: sim_defs)
  have a3: "is_kernel_driver_active ?u3 INTERFACE (dev start) = (Inr True, (0, [])) \<and>
            detach_kernel_driver ?u3 INTERFACE (0, []) = (Inl USBError, (0, []))"
    by (simp add: sim_defs)
  have a4: "detach_attempt ?u4 start = (Inr (), ?w1) \<and>
            (Inr () = Inr () \<or> (Inr () :: exn + unit) = Inl NotImplementedError \<or>
             (Inr () :: exn + unit) = Inl USBError) \<and>
            usb_util_claim_interface ?u4 INTERFACE (dev ?w1) = (Inl USBError, (0, []))"
    by (simp add: detach_attempt_def step_defs sim_defs)
  have a5: "usb_core_find ?u5 VID PID (dev start) = (Inr True, (0, [])) \<and>
            prepare_device ?u5 \<lparr>dev = (0, []), trace = trace start @ [Call_find VID PID]\<rparr> = (Inr (), ?wp) \<and>
            endpoint_config ?u5 ?wp = (Inl USBError, ?w0)"
    by (simp add: prepare_device_def detach_attempt_def endpoint_config_def step_defs sim_defs)
  note t = detach_step_tolerates_two_faults
  note t1 = t [where u = ?u1 and w = start and e = NotImplementedError and ?s1.0 = "(0, [])",
               THEN conjunct1, rule_format, OF a1]
  note t2 = t [where u = ?u2 and w = start and e = "OtherException ''ValueError''" and ?s1.0 = "(0, [])",
               THEN conjunct1, rule_format, OF a2]
  note t3 = t [where u = ?u3 and w = start and e = USBError and ?s1.0 = "(0, [])" and ?s2.0 = "(0, [])",
               THEN conjunct2, THEN conjunct1, rule_format, OF a3]
  note t4 = t [where u = ?u4 and w = start and e = USBError and r = "Inr ()" and ?w1.0 = ?w1
                 and ?s3.0 = "(0, [])",
               THEN conjunct2, THEN conjunct2, THEN conjunct1, rule_format, OF a4]
  note t5 = t [where u = ?u5 and w = start and e = USBError and ?s0.0 = "(0, [])" and wp = ?wp
                 and ?w0.0 = ?w0,
               THEN conjunct2, THEN conjunct2, THEN conjunct2, rule_format, OF a5]
  show ?thesis
    using t1 t2 t3 t4 t5 by (simp add: call_def sim_defs)
qed

text \<open>
  Claim C10. Whenever \<^const>\<open>prepare_device\<close> returns, it has added to the trace the
  query, possibly the detach, and then exactly one claim of the interface, which
  returned normally. If the detach attempt raised, the exception was one of the two
  tolerated ones and the claim directly follows it.
\<close>

theorem claimed_once_when_prepared:
  assumes "prepare_device u w = (Inr (), w')"
  shows "(\<exists>before s1.
            (before = [Call_is_kernel_driver_active INTERFACE] \<or>
             before = [Call_is_kernel_driver_active INTERFACE, Call_detach_kernel_driver INTERFACE]) \<and>
            trace w' = trace w @ before @ [Call_claim_interface INTERFACE] \<and>
            usb_util_claim_interface u INTERFACE s1 = (Inr (), dev w')) \<and>
         (\<forall>e w1. detach_attempt u w = (Inl e, w1) \<longrightarrow>
            (e = NotImplementedError \<or> e = USBError) \<and>
            trace w' = trace w1 @ [Call_claim_interface INTERFACE])"
proof -
  obtain r w1 where d: "detach_attempt u w = (r, w1)" by (cases "detach_attempt u w")
  have c: "call (Call_claim_interface INTERFACE) (usb_util_claim_interface u INTERFACE) w1 = (Inr (), w')"
    and ok: "\<forall>e. r = Inl e \<longrightarrow> tolerated e"
    using assms d by (auto simp: prepare_device_def split: sum.splits if_splits)
  have t: "trace w' = trace w1 @ [Call_claim_interface INTERFACE]"
    using call_trace [of "Call_claim_interface INTERFACE" "usb_util_claim_interface u INTERFACE" w1] c
    by simp
  have s: "usb_util_claim_interface u INTERFACE (dev w1) = (Inr (), dev w')"
    using c by (auto simp: call_def split: prod.splits)
  have b: "trace w1 = trace w @ [Call_is_kernel_driver_active INTERFACE] \<or>
           trace w1 = trace w @ [Call_is_kernel_driver_active INTERFACE, Call_detach_kernel_driver INTERFACE]"
    using detach_attempt_trace [of u w] d by auto
  have first: "\<exists>before s1.
            (before = [Call_is_kernel_driver_active INTERFACE] \<or>
             before = [Call_is_kernel_driver_active INTERFACE, Call_detach_kernel_driver INTERFACE]) \<and>
            trace w' = trace w @ before @ [Call_claim_interface INTERFACE] \<and>
            usb_util_claim_interface u INTERFACE s1 = (Inr (), dev w')"
    using b t s by auto
  have second: "\<forall>e w1. detach_attempt u w = (Inl e, w1) \<longrightarrow>
            (e = NotImplementedError \<or> e = USBError) \<and>
            trace w' = trace w1 @ [Call_claim_interface INTERFACE]"
    using d ok t by (auto simp: tolerated_iff)
  show ?thesis using first second by blast
qed

theorem claimed_once_when_prepared_witness:
  "prepare_device (sim_usb (pong\<lparr>driver_active := Inr True, detach_result := Inl USBError\<rparr>)) start =
     (Inr (), \<lparr>dev = (0, []), trace = [Call_is_kernel_driver_active 0, Call_detach_kernel_driver 0,
                                         Call_claim_interface 0]\<rparr>) \<and>
   detach_attempt (sim_usb (pong\<lparr>driver_active := Inr True, detach_result := Inl USBError\<rparr>)) start =
     (Inl USBError, \<lparr>dev = (0, []), trace = [Call_is_kernel_driver_active 0, Call_detach_kernel_driver 0]\<rparr>) \<and>
   length (filter (\<lambda>ev. ev = Call_claim_interface 0)
     (trace (snd (prepare_device
        (sim_usb (pong\<lparr>driver_active := Inr True, detach_result := Inl USBError\<rparr>)) start)))) = 1"
proof -
  let ?u = "sim_usb (pong\<lparr>driver_active := Inr True, detach_result := Inl USBError\<rparr>)"
  let ?w' = "\<lparr>dev = (0::nat, []::bytes), trace = [Call_is_kernel_driver_active 0,
               Call_detach_kernel_driver 0, Call_claim_interface 0]\<rparr>"
  have h: "prepare_device ?u start = (Inr (), ?w')"
    by (simp add: prepare_device_def detach_attempt_def step_defs sim_defs)
  have d: "detach_attempt ?u start =
     (Inl USBError, \<lparr>dev = (0, []), trace = [Call_is_kernel_driver_active 0, Call_detach_kernel_driver 0]\<rparr>)"
    by (simp add: detach_attempt_def step_defs sim_defs)
  show ?thesis
    using h d claimed_once_when_prepared [OF h] by simp
qed

subsection \<open>Reading the packet size\<close>

text \<open>
  The loop of \<^const>\<open>endpoint_config\<close> never raises, and returns the max packet size of
  the last endpoint at address \<^const>\<open>EP_IN\<close>, or its initial value when there is none.
\<close>

lemma endpoint_loop_result:
  "\<exists>w'. endpoint_loop u eps p w =
     (Inr (case filter (\<lambda>ep. bEndpointAddress ep = EP_IN) eps of
              [] \<Rightarrow> p
            | x # xs \<Rightarrow> wMaxPacketSize (last (x # xs))), w')"
proof (induction eps arbitrary: p w)
  case Nil
  show ?case by simp
next
  case (Cons ep eps)
  let ?w1 = "w\<lparr>trace := trace w @ [Print_Endpoint (bEndpointAddress ep),
               Print_Type (usb_util_endpoint_type u (bmAttributes ep)),
               Print_Max_Packet_Size (wMaxPacketSize ep), Print_Interval (bInterval ep)]\<rparr>"
  have step: "endpoint_loop u (ep # eps) p w =
          endpoint_loop u eps (if bEndpointAddress ep = EP_IN then wMaxPacketSize ep else p) ?w1"
    by (simp add: then_do_def py_print_def Let_def)
  show ?case
    using Cons.IH [of "if bEndpointAddress ep = EP_IN then wMaxPacketSize ep else p" ?w1]
    unfolding step by (auto split: list.splits)
qed

lemma endpoint_config_result:
  assumes "get_active_configuration u (dev w) = (Inr cfg, s1)"
      and "cfg (INTERFACE, 0) = Some eps"
  shows "\<exists>w'. endpoint_config u w =
     (Inr (case filter (\<lambda>ep. bEndpointAddress ep = EP_IN) eps of
              [] \<Rightarrow> 0
            | x # xs \<Rightarrow> wMaxPacketSize (last (x # xs))), w')"
  using assms endpoint_loop_result [of u eps 0]
  by (simp add: endpoint_config_def then_do_def call_def)

lemma filter_no_inbound:
  "\<forall>ep\<in>set eps. bEndpointAddress ep \<noteq> EP_IN \<Longrightarrow>
   filter (\<lambda>ep. bEndpointAddress ep = EP_IN) eps = []"
  by (induction eps) simp_all

subsection \<open>The whole run\<close>

text \<open>\<^const>\<open>main\<close> is its setup followed by the loop and the release.\<close>

lemma main_eq:
  "main u w =
     then_do (main_setup u) (\<lambda>pkt_size.
       then_do (test_loop u (tests pkt_size) pkt_size) (\<lambda>_.
         call (Call_release_interface INTERFACE) (usb_util_release_interface u INTERFACE))) w"
  by (simp add: main_def main_setup_def then_do_def py_print_def raise_def
           split: prod.splits sum.splits)

text \<open>
  Claim C6. Let the device be found and prepared, and let \<open>m\<close> be the max packet size
  of the inbound endpoint (the one at address 0x81) of its active interface, a positive
  number. Then the setup of \<^const>\<open>main\<close> ends with packet size \<open>m\<close>, and
  \<^const>\<open>main\<close> goes on with the loop over the test vectors built from \<open>m\<close>, reading
  up to \<open>m\<close> bytes; the last of these vectors is \<open>m - 1\<close> times the byte \<open>A\<close>. When
  the vectors before it went through and the transport echoes that payload unchanged,
  \<^const>\<open>main\<close> prints the PONG line of the payload, no mismatch line, and goes on to
  the release.
\<close>

theorem boundary_vector_built_from_discovered_size:
  assumes "usb_core_find u VID PID (dev w) = (Inr True, s0)"
      and "prepare_device u \<lparr>dev = s0, trace = trace w @ [Call_find VID PID]\<rparr> = (Inr (), wp)"
      and "get_active_configuration u (dev wp) = (Inr cfg, s1)"
      and "cfg (INTERFACE, 0) = Some eps"
      and "filter (\<lambda>ep. bEndpointAddress ep = EP_IN) eps \<noteq> []"
      and "m = wMaxPacketSize (last (filter (\<lambda>ep. bEndpointAddress ep = EP_IN) eps))"
      and "0 < m"
  shows "\<exists>w0. endpoint_config u wp = (Inr m, w0) \<and>
           main_setup u w = (Inr m, w0) \<and>
           main u w =
             then_do (test_loop u (tests m) m)
               (\<lambda>_. call (Call_release_interface INTERFACE) (usb_util_release_interface u INTERFACE)) w0 \<and>
           last (tests m) = (''pkt_size-1 bytes'', replicate (nat (m - 1)) CHR ''A'') \<and>
           int (length (replicate (nat (m - 1)) CHR ''A'')) = m - 1 \<and>
           (\<forall>w1 s2 s3.
              test_loop u (butlast (tests m)) m w0 = (Inr (), w1) \<and>
              dev_write u EP_OUT (replicate (nat (m - 1)) CHR ''A'') INTERFACE (dev w1) = (Inr (m - 1), s2) \<and>
              dev_read u EP_IN m INTERFACE s2 = (Inr (replicate (nat (m - 1)) CHR ''A''), s3) \<longrightarrow>
              main u w =
                call (Call_release_interface INTERFACE) (usb_util_release_interface u INTERFACE)
                  \<lparr>dev = s3, trace = trace w1 @
                     [Print_PING (replicate (nat (m - 1)) CHR ''A''),
                      Call_write EP_OUT (replicate (nat (m - 1)) CHR ''A'') INTERFACE,
                      Call_read EP_IN m INTERFACE,
                      Print_PONG (replicate (nat (m - 1)) CHR ''A'')]\<rparr>)"
proof -
  let ?payload = "replicate (nat (m - 1)) CHR ''A''"
  let ?release = "call (Call_release_interface INTERFACE) (usb_util_release_interface u INTERFACE)"
  obtain w0 where ec: "endpoint_config u wp = (Inr m, w0)"
    using endpoint_config_result [OF assms(3,4)] assms(5,6) by (auto split: list.splits)
  have ms: "main_setup u w = (Inr m, w0)"
    using assms(1,2) ec by (simp add: main_setup_def then_do_def call_def)
  have mn: "main u w = then_do (test_loop u (tests m) m) (\<lambda>_. ?release) w0"
    using ms by (simp add: main_eq then_do_def del: test_loop.simps)
  have l: "last (tests m) = (''pkt_size-1 bytes'', ?payload)"
    by (simp add: tests_def)
  have len: "int (length ?payload) = m - 1"
    using assms(7) by simp
  have split: "tests m = butlast (tests m) @ [(''pkt_size-1 bytes'', ?payload)]"
    by (simp add: tests_def)
  have echo: "main u w = ?release \<lparr>dev = s3, trace = trace w1 @
                     [Print_PING ?payload, Call_write EP_OUT ?payload INTERFACE,
                      Call_read EP_IN m INTERFACE, Print_PONG ?payload]\<rparr>"
    if b: "test_loop u (butlast (tests m)) m w0 = (Inr (), w1)"
    and wr: "dev_write u EP_OUT ?payload INTERFACE (dev w1) = (Inr (m - 1), s2)"
    and rd: "dev_read u EP_IN m INTERFACE s2 = (Inr ?payload, s3)"
    for w1 s2 s3
  proof -
    have wr': "dev_write u EP_OUT ?payload INTERFACE (dev w1) = (Inr (int (length ?payload)), s2)"
      using wr len by simp
    have one: "test_loop u [(''pkt_size-1 bytes'', ?payload)] m w1 =
            test_loop u [] m \<lparr>dev = s3, trace = trace w1 @
                     [Print_PING ?payload, Call_write EP_OUT ?payload INTERFACE,
                      Call_read EP_IN m INTERFACE, Print_PONG ?payload]\<rparr>"
      by (rule test_loop_echo_step [OF wr' rd])
    have "test_loop u (tests m) m w0 = test_loop u [(''pkt_size-1 bytes'', ?payload)] m w1"
      using b by (subst split) (simp add: test_loop_append del: test_loop.simps)
    then have "test_loop u (tests m) m w0 = (Inr (), \<lparr>dev = s3, trace = trace w1 @
                     [Print_PING ?payload, Call_write EP_OUT ?payload INTERFACE,
                      Call_read EP_IN m INTERFACE, Print_PONG ?payload]\<rparr>)"
      using one by simp
    then show ?thesis
      using mn by (simp add: then_do_def del: test_loop.simps)
  qed
  show ?thesis using ec ms mn l len echo by blast
qed

theorem boundary_vector_built_from_discovered_size_witness:
  "fst (main_setup (sim_usb pong) start) = Inr 64 \<and>
   last (tests 64) = (''pkt_size-1 bytes'', replicate 63 CHR ''A'') \<and>
   fst (test_loop (sim_usb pong) (butlast (tests 64)) 64 (snd (main_setup (sim_usb pong) start))) = Inr () \<and>
   main (sim_usb pong) start =
     (Inr (), \<lparr>dev = (5, replicate 63 CHR ''A''), trace =
        trace (snd (test_loop (sim_usb pong) (butlast (tests 64)) 64 (snd (main_setup (sim_usb pong) start)))) @
        [Print_PING (replicate 63 CHR ''A''), Call_write 1 (replicate 63 CHR ''A'') 0,
         Call_read 129 64 0, Print_PONG (replicate 63 CHR ''A''), Call_release_interface 0]\<rparr>)"
proof -
  let ?u = "sim_usb pong"
  let ?cfg = "\<lambda>k. if k = (0::int, 0::int) then Some (descriptors pong) else None"
  let ?wp = "\<lparr>dev = (0::nat, []::bytes), trace = trace start @ [Call_find VID PID,
               Call_is_kernel_driver_active INTERFACE, Call_claim_interface INTERFACE]\<rparr>"
  let ?w0 = "snd (main_setup ?u start)"
  let ?w1 = "snd (test_loop ?u (butlast (tests 64)) 64 ?w0)"
  let ?A = "replicate 63 CHR ''A''"
  have h1: "usb_core_find ?u VID PID (dev start) = (Inr True, (0, []))"
    by (simp add: sim_defs)
  have h2: "prepare_device ?u \<lparr>dev = (0, []), trace = trace start @ [Call_find VID PID]\<rparr> = (Inr (), ?wp)"
    by (simp add: prepare_device_def detach_attempt_def step_defs sim_defs)
  have h3: "get_active_configuration ?u (dev ?wp) = (Inr ?cfg, (0, []))"
    by (simp add: sim_usb_def)
  have h4: "?cfg (INTERFACE, 0) = Some (descriptors pong)"
    by (simp add: sim_defs)
  have h5: "filter (\<lambda>ep. bEndpointAddress ep = EP_IN) (descriptors pong) \<noteq> []"
    by (simp add: sim_defs)
  have h6: "64 = wMaxPacketSize (last (filter (\<lambda>ep. bEndpointAddress ep = EP_IN) (descriptors pong)))"
    by (simp add: sim_defs)
  have h7: "(0::int) < 64"
    by simp
  obtain w0 where ms: "main_setup ?u start = (Inr 64, w0)"
    and l: "last (tests 64) = (''pkt_size-1 bytes'', replicate (nat (64 - 1)) CHR ''A'')"
    and echo: "\<forall>w1 s2 s3.
              test_loop ?u (butlast (tests 64)) 64 w0 = (Inr (), w1) \<and>
              dev_write ?u EP_OUT (replicate (nat (64 - 1)) CHR ''A'') INTERFACE (dev w1) = (Inr (64 - 1), s2) \<and>
              dev_read ?u EP_IN 64 INTERFACE s2 = (Inr (replicate (nat (64 - 1)) CHR ''A''), s3) \<longrightarrow>
              main ?u start =
                call (Call_release_interface INTERFACE) (usb_util_release_interface ?u INTERFACE)
                  \<lparr>dev = s3, trace = trace w1 @
                     [Print_PING (replicate (nat (64 - 1)) CHR ''A''),
                      Call_write EP_OUT (replicate (nat (64 - 1)) CHR ''A'') INTERFACE,
                      Call_read EP_IN 64 INTERFACE,
                      Print_PONG (replicate (nat (64 - 1)) CHR ''A'')]\<rparr>"
    using boundary_vector_built_from_discovered_size [OF h1 h2 h3 h4 h5 h6 h7] by blast
  have w0: "w0 = ?w0"
    using ms by simp
  have s: "fst (main_setup ?u start) = Inr 64"
    using ms by simp
  have b': "fst (test_loop ?u (butlast (tests 64)) 64 ?w0) = Inr ()"
    by (simp add: run_defs step_defs sim_defs)
  have b: "test_loop ?u (butlast (tests 64)) 64 w0 = (Inr (), ?w1)"
    unfolding w0 using b' by (simp add: prod_eq_iff)
  have d: "dev ?w1 = (4, ''ABC'' @ [CHR 0x00] @ ''DEF'')"
    by (simp add: run_defs step_defs sim_defs)
  have wr: "dev_write ?u EP_OUT (replicate (nat (64 - 1)) CHR ''A'') INTERFACE (dev ?w1) =
              (Inr (64 - 1), (4, replicate (nat (64 - 1)) CHR ''A''))"
    unfolding d by (simp add: sim_defs)
  have rd: "dev_read ?u EP_IN 64 INTERFACE (4, replicate (nat (64 - 1)) CHR ''A'') =
              (Inr (replicate (nat (64 - 1)) CHR ''A''), (5, replicate (nat (64 - 1)) CHR ''A''))"
    by (simp add: sim_defs)
  have m: "main ?u start =
                call (Call_release_interface INTERFACE) (usb_util_release_interface ?u INTERFACE)
                  \<lparr>dev = (5, replicate (nat (64 - 1)) CHR ''A''), trace = trace ?w1 @
                     [Print_PING (replicate (nat (64 - 1)) CHR ''A''),
                      Call_write EP_OUT (replicate (nat (64 - 1)) CHR ''A'') INTERFACE,
                      Call_read EP_IN 64 INTERFACE,
                      Print_PONG (replicate (nat (64 - 1)) CHR ''A'')]\<rparr>"
    using echo b wr rd by blast
  have n: "nat (64 - 1) = 63"
    by simp
  have m': "main ?u start =
     (Inr (), \<lparr>dev = (5, ?A), trace = trace ?w1 @
        [Print_PING ?A, Call_write 1 ?A 0, Call_read 129 64 0, Print_PONG ?A,
         Call_release_interface 0]\<rparr>)"
    unfolding m n by (simp add: call_def sim_defs)
  have l': "last (tests 64) = (''pkt_size-1 bytes'', ?A)"
    using l unfolding n .
  show ?thesis
    using s l' b' m' by blast
qed

text \<open>Nothing before the end of the loop releases the interface.\<close>

lemma send_and_receive_no_release:
  "Call_release_interface i \<notin> set (trace w) \<Longrightarrow>
   Call_release_interface i \<notin> set (trace (snd (send_and_receive u payload pkt_size w)))"
  by (auto simp: step_defs split: prod.splits sum.splits if_splits)

lemma test_loop_no_release:
  "Call_release_interface i \<notin> set (trace w) \<Longrightarrow>
   Call_release_interface i \<notin> set (trace (snd (test_loop u vectors pkt_size w)))"
proof (induction vectors arbitrary: w)
  case Nil
  then show ?case by simp
next
  case (Cons v vectors)
  obtain name data where v: "v = (name, data)" by (cases v)
  obtain r w1 where sr: "send_and_receive u data pkt_size w = (r, w1)"
    by (cases "send_and_receive u data pkt_size w")
  have w1: "Call_release_interface i \<notin> set (trace w1)"
    using send_and_receive_no_release [OF Cons.prems, of u data pkt_size] sr by simp
  show ?case
  proof (cases r)
    case (Inl e)
    then show ?thesis using sr w1 by (simp add: v then_do_def)
  next
    case (Inr response)
    show ?thesis
    proof (cases "response = data")
      case True
      then show ?thesis using sr Inr Cons.IH [OF w1] by (simp add: v then_do_def)
    next
      case False
      let ?w2 = "w1\<lparr>trace := trace w1 @ [Print (''ERROR: Mismatch in '' @ name @ '' test.'')]\<rparr>"
      have "Call_release_interface i \<notin> set (trace ?w2)" using w1 by simp
      from Cons.IH [OF this] show ?thesis
        using sr Inr False by (simp add: v then_do_def py_print_def)
    qed
  qed
qed

lemma prepare_device_no_release:
  "Call_release_interface i \<notin> set (trace w) \<Longrightarrow>
   Call_release_interface i \<notin> set (trace (snd (prepare_device u w)))"
  by (auto simp: prepare_device_def detach_attempt_def then_do_def call_def
           split: prod.splits sum.splits if_splits)

lemma endpoint_loop_no_release:
  "Call_release_interface i \<notin> set (trace w) \<Longrightarrow>
   Call_release_interface i \<notin> set (trace (snd (endpoint_loop u eps p w)))"
  by (induction eps arbitrary: p w) (simp_all add: then_do_def py_print_def Let_def)

lemma endpoint_config_no_release:
  "Call_release_interface i \<notin> set (trace w) \<Longrightarrow>
   Call_release_interface i \<notin> set (trace (snd (endpoint_config u w)))"
  by (auto simp: endpoint_config_def then_do_def call_def raise_def endpoint_loop_no_release
           split: prod.splits sum.splits option.splits)

lemma main_setup_no_release:
  assumes "Call_release_interface i \<notin> set (trace w)"
  shows "Call_release_interface i \<notin> set (trace (snd (main_setup u w)))"
proof -
  obtain r s0 where f: "usb_core_find u VID PID (dev w) = (r, s0)"
    by (cases "usb_core_find u VID PID (dev w)")
  let ?w0 = "\<lparr>dev = s0, trace = trace w @ [Call_find VID PID]\<rparr>"
  have w0: "Call_release_interface i \<notin> set (trace ?w0)" using assms by simp
  show ?thesis
  proof (cases r)
    case (Inl e)
    then show ?thesis using f w0 by (simp add: main_setup_def then_do_def call_def)
  next
    case (Inr found)
    show ?thesis
    proof (cases found)
      case False
      then show ?thesis using f Inr w0
        by (simp add: main_setup_def then_do_def call_def py_print_def raise_def)
    next
      case True
      obtain r1 wp where p: "prepare_device u ?w0 = (r1, wp)" by (cases "prepare_device u ?w0")
      have wp: "Call_release_interface i \<notin> set (trace wp)"
        using prepare_device_no_release [OF w0, of u] p by simp
      show ?thesis
        using f Inr True p wp endpoint_config_no_release [OF wp, of u]
        by (cases r1) (simp_all add: main_setup_def then_do_def call_def)
    qed
  qed
qed

text \<open>
  Claim C4, as the script has it. The claim says that the interface is released on
  every exit path. The script has no \<^verbatim>\<open>try\<close> around the loop: when the loop completes
  normally, the release is the next and last call of \<^const>\<open>main\<close>; when the loop
  raises, the exception leaves \<^const>\<open>main\<close> and the interface is not released.
\<close>

theorem release_only_after_completed_loop:
  assumes "main_setup u w = (Inr pkt_size, w0)"
      and "Call_release_interface INTERFACE \<notin> set (trace w)"
  shows "case test_loop u (tests pkt_size) pkt_size w0 of
           (Inr _, w1) \<Rightarrow>
             Call_release_interface INTERFACE \<notin> set (trace w1) \<and>
             trace (snd (main u w)) = trace w1 @ [Call_release_interface INTERFACE]
         | (Inl e, w1) \<Rightarrow>
             main u w = (Inl e, w1) \<and>
             Call_release_interface INTERFACE \<notin> set (trace (snd (main u w)))"
proof -
  have w0: "Call_release_interface INTERFACE \<notin> set (trace w0)"
    using main_setup_no_release [OF assms(2), of u] assms(1) by simp
  obtain r w1 where l: "test_loop u (tests pkt_size) pkt_size w0 = (r, w1)"
    by (cases "test_loop u (tests pkt_size) pkt_size w0")
  have w1: "Call_release_interface INTERFACE \<notin> set (trace w1)"
    using test_loop_no_release [OF w0, of u "tests pkt_size" pkt_size] l by simp
  show ?thesis
    using assms(1) l w1 by (cases r) (simp_all add: main_eq then_do_def call_trace)
qed

theorem release_only_after_completed_loop_witness:
  "main_setup (sim_usb (stalling 2)) start = (Inr 64, snd (main_setup (sim_usb (stalling 2)) start)) \<and>
   Call_release_interface INTERFACE \<notin> set (trace start) \<and>
   fst (test_loop (sim_usb (stalling 2)) (tests 64) 64 (snd (main_setup (sim_usb (stalling 2)) start)))
     = Inl USBError \<and>
   fst (main (sim_usb (stalling 2)) start) = Inl USBError \<and>
   Call_release_interface INTERFACE \<notin> set (trace (snd (main (sim_usb (stalling 2)) start)))"
proof -
  let ?u = "sim_usb (stalling 2)"
  have h1: "main_setup ?u start = (Inr 64, snd (main_setup ?u start))"
    by (simp add: run_defs step_defs sim_defs stalling_def)
  have h2: "Call_release_interface INTERFACE \<notin> set (trace start)"
    by (simp add: start_def)
  have l: "fst (test_loop ?u (tests 64) 64 (snd (main_setup ?u start))) = Inl USBError"
    by (simp add: run_defs step_defs sim_defs stalling_def)
  show ?thesis
    using h1 h2 l release_only_after_completed_loop [OF h1 h2]
    by (auto split: prod.splits sum.splits)
qed

text \<open>
  Claim C4, as stated, fails: with a device whose third read stalls, \<^const>\<open>main\<close>
  ends with the transport error, the interface was claimed, and it is never released.
\<close>

theorem release_skipped_after_read_fault:
  "fst (main (sim_usb (stalling 2)) start) = Inl USBError \<and>
   Call_claim_interface INTERFACE \<in> set (trace (snd (main (sim_usb (stalling 2)) start))) \<and>
   Call_release_interface INTERFACE \<notin> set (trace (snd (main (sim_usb (stalling 2)) start)))"
  by (simp add: run_defs step_defs sim_defs stalling_def)

text \<open>
  Claim C7, as the script has it. When the loop runs to completion and the release of
  the interface that follows returns normally, the exit status is 0, whatever was
  mismatched on the way; when no device is found, the script prints the error line and
  the exit status is 1.
\<close>

theorem exit_status_zero_or_one:
  "(main_setup u w = (Inr pkt_size, w0) \<and>
    test_loop u (tests pkt_size) pkt_size w0 = (Inr (), w1) \<and>
    usb_util_release_interface u INTERFACE (dev w1) = (Inr (), s2) \<longrightarrow>
      script u w = (0, \<lparr>dev = s2, trace = trace w1 @ [Call_release_interface INTERFACE]\<rparr>)) \<and>
   (usb_core_find u VID PID (dev w) = (Inr False, s0) \<longrightarrow>
      script u w = (1, \<lparr>dev = s0, trace = trace w @ [Call_find VID PID,
                                                       Print ''ERROR: Device not found.'']\<rparr>))"
proof (intro conjI impI)
  assume "main_setup u w = (Inr pkt_size, w0) \<and>
    test_loop u (tests pkt_size) pkt_size w0 = (Inr (), w1) \<and>
    usb_util_release_interface u INTERFACE (dev w1) = (Inr (), s2)"
  then show "script u w = (0, \<lparr>dev = s2, trace = trace w1 @ [Call_release_interface INTERFACE]\<rparr>)"
    by (simp add: script_def main_eq then_do_def call_def)
next
  assume "usb_core_find u VID PID (dev w) = (Inr False, s0)"
  then show "script u w = (1, \<lparr>dev = s0, trace = trace w @ [Call_find VID PID,
                                                       Print ''ERROR: Device not found.'']\<rparr>)"
    by (simp add: script_def main_def then_do_def call_def py_print_def raise_def)
qed

theorem exit_status_zero_or_one_witness:
  "fst (main_setup (sim_usb (pong\<lparr>reply := (\<lambda>k data. Inr (take 5 data))\<rparr>)) start) = Inr 64 \<and>
   fst (test_loop (sim_usb (pong\<lparr>reply := (\<lambda>k data. Inr (take 5 data))\<rparr>)) (tests 64) 64
          (snd (main_setup (sim_usb (pong\<lparr>reply := (\<lambda>k data. Inr (take 5 data))\<rparr>)) start))) = Inr () \<and>
   Print ''ERROR: Mismatch in Text test.'' \<in>
     set (trace (snd (script (sim_usb (pong\<lparr>reply := (\<lambda>k data. Inr (take 5 data))\<rparr>)) start))) \<and>
   fst (script (sim_usb (pong\<lparr>reply := (\<lambda>k data. Inr (take 5 data))\<rparr>)) start) = 0 \<and>
   usb_core_find (sim_usb (pong\<lparr>present := False\<rparr>)) VID PID (dev start) = (Inr False, (0, [])) \<and>
   script (sim_usb (pong\<lparr>present := False\<rparr>)) start =
     (1, \<lparr>dev = (0, []), trace = [Call_find 0x1d6b 0x0104, Print ''ERROR: Device not found.'']\<rparr>)"
proof -
  let ?u = "sim_usb (pong\<lparr>reply := (\<lambda>k data. Inr (take 5 data))\<rparr>)"
  let ?v = "sim_usb (pong\<lparr>present := False\<rparr>)"
  let ?w0 = "snd (main_setup ?u start)"
  let ?w1 = "snd (test_loop ?u (tests 64) 64 ?w0)"
  have s': "fst (main_setup ?u start) = Inr 64"
    by (simp add: run_defs step_defs sim_defs)
  have l': "fst (test_loop ?u (tests 64) 64 ?w0) = Inr ()"
    by (simp add: run_defs step_defs sim_defs)
  have s: "main_setup ?u start = (Inr 64, ?w0)"
    using s' by (simp add: prod_eq_iff)
  have l: "test_loop ?u (tests 64) 64 ?w0 = (Inr (), ?w1)"
    using l' by (simp add: prod_eq_iff)
  have m: "Print ''ERROR: Mismatch in Text test.'' \<in> set (trace ?w1)"
    by (simp add: run_defs step_defs sim_defs)
  have r: "usb_util_release_interface ?u INTERFACE (dev ?w1) = (Inr (), dev ?w1)"
    by (simp add: sim_defs)
  have a: "usb_core_find ?v VID PID (dev start) = (Inr False, (0, []))"
    by (simp add: sim_defs)
  note t = exit_status_zero_or_one
  have t1: "script ?u start = (0, \<lparr>dev = dev ?w1, trace = trace ?w1 @ [Call_release_interface INTERFACE]\<rparr>)"
    using t [where u = ?u and w = start and pkt_size = 64 and ?w0.0 = ?w0 and ?w1.0 = ?w1
               and ?s2.0 = "dev ?w1", THEN conjunct1] s l r by blast
  have t2: "script ?v start = (1, \<lparr>dev = (0, []), trace = trace start @ [Call_find VID PID,
                                                       Print ''ERROR: Device not found.'']\<rparr>)"
    using t [where u = ?v and w = start and ?s0.0 = "(0, [])", THEN conjunct2] a by blast
  have m': "Print ''ERROR: Mismatch in Text test.'' \<in> set (trace (snd (script ?u start)))"
    using m by (simp add: t1)
  have z: "fst (script ?u start) = 0"
    by (simp add: t1)
  have o: "script ?v start =
     (1, \<lparr>dev = (0, []), trace = [Call_find 0x1d6b 0x0104, Print ''ERROR: Device not found.'']\<rparr>)"
    using t2 by (simp add: start_def VID_def PID_def)
  show ?thesis
    using s' l' m' z a o by blast
qed

text \<open>
  Claim C7, as stated, fails: the release of line 68 stands between the loop and
  \<^verbatim>\<open>exit(0)\<close>. With a device on which the release raises, the loop runs to
  completion and the exit status is 1.
\<close>

theorem exit_status_one_when_release_fails:
  "fst (main_setup (sim_usb (pong\<lparr>release_result := Inl USBError\<rparr>)) start) = Inr 64 \<and>
   fst (test_loop (sim_usb (pong\<lparr>release_result := Inl USBError\<rparr>)) (tests 64) 64
          (snd (main_setup (sim_usb (pong\<lparr>release_result := Inl USBError\<rparr>)) start))) = Inr () \<and>
   fst (script (sim_usb (pong\<lparr>release_result := Inl USBError\<rparr>)) start) = 1"
  by (simp add: run_defs step_defs sim_defs)

text \<open>
  Every exchange begins with its PING line and its write, and the loop only adds to
  the trace; so a run that enters the loop begins with the write of the first vector.
\<close>

lemma send_and_receive_begins:
  "\<exists>rest. trace (snd (send_and_receive u data pkt_size w)) =
           trace w @ [Print_PING data, Call_write EP_OUT data INTERFACE] @ rest"
  by (auto simp: step_defs split: prod.splits sum.splits)

lemma test_loop_trace_grows:
  "\<exists>rest. trace (snd (test_loop u vectors pkt_size w)) = trace w @ rest"
proof (induction vectors arbitrary: w)
  case Nil
  show ?case by simp
next
  case (Cons v vectors)
  obtain name data where v: "v = (name, data)" by (cases v)
  obtain r w1 where sr: "send_and_receive u data pkt_size w = (r, w1)"
    by (cases "send_and_receive u data pkt_size w")
  obtain rest1 where t1: "trace w1 = trace w @ rest1"
    using send_and_receive_begins [of u data pkt_size w] sr by auto
  show ?case
  proof (cases r)
    case (Inl e)
    then show ?thesis using sr t1 by (simp add: v then_do_def)
  next
    case (Inr response)
    let ?w2 = "if response \<noteq> data
               then w1\<lparr>trace := trace w1 @ [Print (''ERROR: Mismatch in '' @ name @ '' test.'')]\<rparr>
               else w1"
    have step: "test_loop u (v # vectors) pkt_size w = test_loop u vectors pkt_size ?w2"
      using sr Inr by (simp add: v then_do_def py_print_def)
    obtain rest2 where "trace (snd (test_loop u vectors pkt_size ?w2)) = trace ?w2 @ rest2"
      using Cons.IH [of ?w2] by blast
    then show ?thesis
      unfolding step using t1 by (cases "response = data") simp_all
  qed
qed

lemma test_loop_begins:
  "\<exists>rest. trace (snd (test_loop u ((name, data) # vectors) pkt_size w)) =
           trace w @ [Print_PING data, Call_write EP_OUT data INTERFACE] @ rest"
proof -
  obtain r w1 where sr: "send_and_receive u data pkt_size w = (r, w1)"
    by (cases "send_and_receive u data pkt_size w")
  obtain rest1 where t1: "trace w1 = trace w @ [Print_PING data, Call_write EP_OUT data INTERFACE] @ rest1"
    using send_and_receive_begins [of u data pkt_size w] sr by auto
  show ?thesis
  proof (cases r)
    case (Inl e)
    then show ?thesis using sr t1 by (simp add: then_do_def)
  next
    case (Inr response)
    let ?w2 = "if response \<noteq> data
               then w1\<lparr>trace := trace w1 @ [Print (''ERROR: Mismatch in '' @ name @ '' test.'')]\<rparr>
               else w1"
    have step: "test_loop u ((name, data) # vectors) pkt_size w = test_loop u vectors pkt_size ?w2"
      using sr Inr by (simp add: then_do_def py_print_def)
    obtain rest2 where "trace (snd (test_loop u vectors pkt_size ?w2)) = trace ?w2 @ rest2"
      using test_loop_trace_grows [of u vectors pkt_size ?w2] by blast
    then show ?thesis
      unfolding step using t1 by (cases "response = data") simp_all
  qed
qed

lemma run_begins_with_first_write:
  "\<exists>rest. trace (snd (then_do (test_loop u ((name, data) # vectors) pkt_size)
              (\<lambda>_. call (Call_release_interface INTERFACE) (usb_util_release_interface u INTERFACE)) w)) =
           trace w @ [Print_PING data, Call_write EP_OUT data INTERFACE] @ rest"
proof -
  obtain r w1 where l: "test_loop u ((name, data) # vectors) pkt_size w = (r, w1)"
    by (cases "test_loop u ((name, data) # vectors) pkt_size w")
  obtain rest where t: "trace w1 = trace w @ [Print_PING data, Call_write EP_OUT data INTERFACE] @ rest"
    using test_loop_begins [of u name data vectors pkt_size w] l by auto
  show ?thesis
    using l t by (cases r) (simp_all add: then_do_def call_trace del: test_loop.simps)
qed

text \<open>
  Claim C9, as the script has it. If the device is found and prepared and its active
  interface has no endpoint at address 0x81, then \<^const>\<open>endpoint_config\<close> returns 0,
  the setup succeeds with packet size 0, and the last test vector is the empty byte
  string. The run does not fail during setup: \<^const>\<open>main\<close> enters the loop and
  begins with the PING line and the write of the first vector. The empty payload is
  written once the four vectors before it went through; if one of their exchanges
  raises, that exception leaves \<^const>\<open>main\<close> first.
\<close>

theorem no_inbound_endpoint_gives_empty_boundary_vector:
  assumes "usb_core_find u VID PID (dev w) = (Inr True, s0)"
      and "prepare_device u \<lparr>dev = s0, trace = trace w @ [Call_find VID PID]\<rparr> = (Inr (), wp)"
      and "get_active_configuration u (dev wp) = (Inr cfg, s1)"
      and "cfg (INTERFACE, 0) = Some eps"
      and "\<forall>ep\<in>set eps. bEndpointAddress ep \<noteq> EP_IN"
  shows "\<exists>w0. endpoint_config u wp = (Inr 0, w0) \<and>
           main_setup u w = (Inr 0, w0) \<and>
           last (tests 0) = (''pkt_size-1 bytes'', []) \<and>
           main u w =
             then_do (test_loop u (tests 0) 0)
               (\<lambda>_. call (Call_release_interface INTERFACE) (usb_util_release_interface u INTERFACE)) w0 \<and>
           (\<exists>rest. trace (snd (main u w)) =
              trace w0 @ [Print_PING ''Hello USB!'', Call_write EP_OUT ''Hello USB!'' INTERFACE] @ rest) \<and>
           (\<forall>w1. test_loop u (butlast (tests 0)) 0 w0 = (Inr (), w1) \<longrightarrow>
              (\<exists>rest. trace (snd (main u w)) =
                 trace w1 @ [Print_PING [], Call_write EP_OUT [] INTERFACE] @ rest)) \<and>
           (\<forall>e w1. test_loop u (butlast (tests 0)) 0 w0 = (Inl e, w1) \<longrightarrow> main u w = (Inl e, w1))"
proof -
  let ?release = "call (Call_release_interface INTERFACE) (usb_util_release_interface u INTERFACE)"
  obtain w0 where ec: "endpoint_config u wp = (Inr 0, w0)"
    using endpoint_config_result [OF assms(3,4)] filter_no_inbound [OF assms(5)] by auto
  have ms: "main_setup u w = (Inr 0, w0)"
    using assms(1,2) ec by (simp add: main_setup_def then_do_def call_def)
  have l: "last (tests 0) = (''pkt_size-1 bytes'', [])"
    by (simp add: tests_def)
  have mn: "main u w = then_do (test_loop u (tests 0) 0) (\<lambda>_. ?release) w0"
    using ms by (simp add: main_eq then_do_def del: test_loop.simps)
  have hd: "tests 0 = (''Text'', ''Hello USB!'') # tl (tests 0)"
    by (simp add: tests_def)
  have first: "\<exists>rest. trace (snd (main u w)) =
              trace w0 @ [Print_PING ''Hello USB!'', Call_write EP_OUT ''Hello USB!'' INTERFACE] @ rest"
    unfolding mn by (subst hd) (rule run_begins_with_first_write)
  have split: "tests 0 = butlast (tests 0) @ [(''pkt_size-1 bytes'', [])]"
    by (simp add: tests_def)
  have run: "\<exists>rest. trace (snd (main u w)) =
                 trace w1 @ [Print_PING [], Call_write EP_OUT [] INTERFACE] @ rest"
    if b: "test_loop u (butlast (tests 0)) 0 w0 = (Inr (), w1)" for w1
  proof -
    have "test_loop u (tests 0) 0 w0 = test_loop u [(''pkt_size-1 bytes'', [])] 0 w1"
      using b by (subst split) (simp add: test_loop_append del: test_loop.simps)
    then have "main u w = then_do (test_loop u [(''pkt_size-1 bytes'', [])] 0) (\<lambda>_. ?release) w1"
      using mn by (simp add: then_do_def del: test_loop.simps)
    then show ?thesis
      using run_begins_with_first_write [of u "''pkt_size-1 bytes''" "[]" "[]" 0 w1] by simp
  qed
  have stop: "main u w = (Inl e, w1)"
    if b: "test_loop u (butlast (tests 0)) 0 w0 = (Inl e, w1)" for e w1
  proof -
    have "test_loop u (tests 0) 0 w0 = (Inl e, w1)"
      using b by (subst split) (simp add: test_loop_append del: test_loop.simps)
    then show ?thesis
      using mn by (simp add: then_do_def del: test_loop.simps)
  qed
  show ?thesis using ec ms l mn first run stop by blast
qed

theorem no_inbound_endpoint_gives_empty_boundary_vector_witness:
  "map bEndpointAddress (descriptors (pong\<lparr>descriptors :=
        [\<lparr>bEndpointAddress = 0x01, bmAttributes = 2, wMaxPacketSize = 64, bInterval = 0\<rparr>]\<rparr>)) = [1] \<and>
   main_setup
     (sim_usb (pong\<lparr>descriptors :=
        [\<lparr>bEndpointAddress = 0x01, bmAttributes = 2, wMaxPacketSize = 64, bInterval = 0\<rparr>]\<rparr>))
     start =
     (Inr 0, \<lparr>dev = (0, []), trace = [Call_find 0x1d6b 0x0104, Call_is_kernel_driver_active 0,
        Call_claim_interface 0, Call_get_active_configuration, Print_Endpoint 1, Print_Type 2,
        Print_Max_Packet_Size 64, Print_Interval 0]\<rparr>) \<and>
   fst (test_loop
     (sim_usb (pong\<lparr>descriptors :=
        [\<lparr>bEndpointAddress = 0x01, bmAttributes = 2, wMaxPacketSize = 64, bInterval = 0\<rparr>]\<rparr>))
     (butlast (tests 0)) 0
     \<lparr>dev = (0, []), trace = [Call_find 0x1d6b 0x0104, Call_is_kernel_driver_active 0,
        Call_claim_interface 0, Call_get_active_configuration, Print_Endpoint 1, Print_Type 2,
        Print_Max_Packet_Size 64, Print_Interval 0]\<rparr>) = Inr () \<and>
   Call_write 1 [] 0 \<in> set (trace (snd (main
     (sim_usb (pong\<lparr>descriptors :=
        [\<lparr>bEndpointAddress = 0x01, bmAttributes = 2, wMaxPacketSize = 64, bInterval = 0\<rparr>]\<rparr>))
     start))) \<and>
   map bEndpointAddress (descriptors deaf) = [1] \<and>
   main (sim_usb deaf) start =
     (Inl (OtherException ''ValueError''),
      \<lparr>dev = (1, ''Hello USB!''), trace = [Call_find 0x1d6b 0x0104, Call_is_kernel_driver_active 0,
        Call_claim_interface 0, Call_get_active_configuration, Print_Endpoint 1, Print_Type 2,
        Print_Max_Packet_Size 64, Print_Interval 0,
        Print_PING ''Hello USB!'', Call_write 1 ''Hello USB!'' 0, Call_read 129 0 0]\<rparr>)"
proof -
  let ?eps = "[\<lparr>bEndpointAddress = 0x01, bmAttributes = 2, wMaxPacketSize = 64, bInterval = 0\<rparr>]"
  let ?u = "sim_usb (pong\<lparr>descriptors := ?eps\<rparr>)"
  let ?v = "sim_usb deaf"
  let ?cfg = "\<lambda>k. if k = (0::int, 0::int) then Some (descriptors (pong\<lparr>descriptors := ?eps\<rparr>)) else None"
  let ?cfg' = "\<lambda>k. if k = (0::int, 0::int) then Some (descriptors deaf) else None"
  let ?wp = "\<lparr>dev = (0::nat, []::bytes), trace = trace start @ [Call_find VID PID,
               Call_is_kernel_driver_active INTERFACE, Call_claim_interface INTERFACE]\<rparr>"
  let ?w0 = "\<lparr>dev = (0::nat, []::bytes), trace = [Call_find 0x1d6b 0x0104, Call_is_kernel_driver_active 0,
        Call_claim_interface 0, Call_get_active_configuration, Print_Endpoint 1, Print_Type 2,
        Print_Max_Packet_Size 64, Print_Interval 0]\<rparr>"
  let ?w1 = "\<lparr>dev = (1::nat, ''Hello USB!''), trace = [Call_find 0x1d6b 0x0104, Call_is_kernel_driver_active 0,
        Call_claim_interface 0, Call_get_active_configuration, Print_Endpoint 1, Print_Type 2,
        Print_Max_Packet_Size 64, Print_Interval 0,
        Print_PING ''Hello USB!'', Call_write 1 ''Hello USB!'' 0, Call_read 129 0 0]\<rparr>"

  have a0: "map bEndpointAddress (descriptors (pong\<lparr>descriptors := ?eps\<rparr>)) = [1]"
    by simp
  have a1: "usb_core_find ?u VID PID (dev start) = (Inr True, (0, []))"
    by (simp add: sim_defs)
  have a2: "prepare_device ?u \<lparr>dev = (0, []), trace = trace start @ [Call_find VID PID]\<rparr> = (Inr (), ?wp)"
    by (simp add: prepare_device_def detach_attempt_def step_defs sim_defs)
  have a3: "get_active_configuration ?u (dev ?wp) = (Inr ?cfg, (0, []))"
    by (simp add: sim_usb_def)
  have a4: "?cfg (INTERFACE, 0) = Some ?eps"
    by (simp add: sim_defs)
  have a5: "\<forall>ep\<in>set ?eps. bEndpointAddress ep \<noteq> EP_IN"
    by (simp add: sim_defs)
  obtain w0 where ms: "main_setup ?u start = (Inr 0, w0)"
    and run: "\<forall>w1. test_loop ?u (butlast (tests 0)) 0 w0 = (Inr (), w1) \<longrightarrow>
              (\<exists>rest. trace (snd (main ?u start)) =
                 trace w1 @ [Print_PING [], Call_write EP_OUT [] INTERFACE] @ rest)"
    using no_inbound_endpoint_gives_empty_boundary_vector [OF a1 a2 a3 a4 a5] by blast
  have ms': "main_setup ?u start = (Inr 0, ?w0)"
    by (simp add: run_defs step_defs sim_defs)
  have w0: "w0 = ?w0"
    using ms ms' by simp
  have l: "fst (test_loop ?u (butlast (tests 0)) 0 ?w0) = Inr ()"
    by (simp add: tests_def step_defs sim_defs)
  then have "test_loop ?u (butlast (tests 0)) 0 w0 = (Inr (), snd (test_loop ?u (butlast (tests 0)) 0 w0))"
    unfolding w0 by (simp add: prod_eq_iff)
  with run obtain rest where "trace (snd (main ?u start)) =
      trace (snd (test_loop ?u (butlast (tests 0)) 0 w0)) @
        [Print_PING [], Call_write EP_OUT [] INTERFACE] @ rest"
    by blast
  then have wr: "Call_write 1 [] 0 \<in> set (trace (snd (main ?u start)))"
    by (simp add: EP_OUT_def INTERFACE_def)

  have b0: "map bEndpointAddress (descriptors deaf) = [1]"
    by (simp add: deaf_def)
  have b1: "usb_core_find ?v VID PID (dev start) = (Inr True, (0, []))"
    by (simp add: sim_defs deaf_def)
  have b2: "prepare_device ?v \<lparr>dev = (0, []), trace = trace start @ [Call_find VID PID]\<rparr> = (Inr (), ?wp)"
    by (simp add: prepare_device_def detach_attempt_def step_defs sim_defs deaf_def)
  have b3: "get_active_configuration ?v (dev ?wp) = (Inr ?cfg', (0, []))"
    by (simp add: sim_usb_def)
  have b4: "?cfg' (INTERFACE, 0) = Some ?eps"
    by (simp add: sim_defs deaf_def)
  obtain v0 where vs: "main_setup ?v start = (Inr 0, v0)"
    and stop: "\<forall>e w1. test_loop ?v (butlast (tests 0)) 0 v0 = (Inl e, w1) \<longrightarrow> main ?v start = (Inl e, w1)"
    using no_inbound_endpoint_gives_empty_boundary_vector [OF b1 b2 b3 b4 a5] by blast
  have vs': "main_setup ?v start = (Inr 0, ?w0)"
    by (simp add: run_defs step_defs sim_defs deaf_def)
  have v0: "v0 = ?w0"
    using vs vs' by simp
  have "test_loop ?v (butlast (tests 0)) 0 ?w0 = (Inl (OtherException ''ValueError''), ?w1)"
    by (simp add: tests_def step_defs sim_defs deaf_def)
  then have m: "main ?v start = (Inl (OtherException ''ValueError''), ?w1)"
    using stop unfolding v0 by blast
  show ?thesis
    using a0 ms' l wr b0 m by blast
qed

text \<open>
  Claim C9, as stated, fails: the run reads from address 0x81 for every vector, also
  when the interface has no such endpoint. With a device that refuses that read, the
  setup succeeds with packet size 0, the first exchange raises, and the empty payload
  is never written.
\<close>

theorem empty_payload_not_written_when_read_raises:
  "map bEndpointAddress (descriptors deaf) = [1] \<and>
   fst (main_setup (sim_usb deaf) start) = Inr 0 \<and>
   fst (main (sim_usb deaf) start) = Inl (OtherException ''ValueError'') \<and>
   Call_write 1 [] 0 \<notin> set (trace (snd (main (sim_usb deaf) start)))"
  by (simp add: run_defs step_defs sim_defs deaf_def)

end
